theory Spec2Isabelle
  imports Main "HOL-Library.Word" "HOL-Library.Sublist"
begin

section \<open>JavaScript strings and values\<close>

text \<open>
  A JavaScript string is a sequence of UTF-16 code units, so it is modelled as a list of
  16-bit words.  \<open>ascii\<close> writes the string literals of the source.
\<close>

type_synonym js_string = "16 word list"

definition ascii :: "string \<Rightarrow> js_string" where
  "ascii s = map (\<lambda>c. of_nat (of_char c)) s"

text \<open>
  \<^verbatim>\<open>String.prototype.trim\<close> removes the leading and trailing code units that ECMAScript
  calls WhiteSpace (TAB, VT, FF, SP, NBSP, ZWNBSP and the Unicode space separators) or
  LineTerminator (LF, CR, LS, PS).
\<close>

definition isWhiteSpace :: "16 word \<Rightarrow> bool" where
  "isWhiteSpace c \<longleftrightarrow>
     c \<in> {0x09, 0x0A, 0x0B, 0x0C, 0x0D, 0x20, 0xA0, 0x1680, 0x2028, 0x2029, 0x202F,
          0x205F, 0x3000, 0xFEFF}
     \<or> (0x2000 \<le> c \<and> c \<le> 0x200A)"

definition trim :: "js_string \<Rightarrow> js_string" where
  "trim s = rev (dropWhile isWhiteSpace (rev (dropWhile isWhiteSpace s)))"

text \<open>A string used as a condition (\<^verbatim>\<open>if (s)\<close>, \<^verbatim>\<open>a && b\<close>, \<^verbatim>\<open>!s\<close>) is true unless it is empty.\<close>

definition truthy :: "js_string \<Rightarrow> bool" where
  "truthy s \<longleftrightarrow> s \<noteq> []"

text \<open>\<^verbatim>\<open>Number.prototype.toString\<close> on an integer: its decimal digits, with a sign if negative.\<close>

fun digits :: "nat \<Rightarrow> js_string" where
  "digits n =
     (if n < 10 then [of_nat (48 + n)] else digits (n div 10) @ [of_nat (48 + n mod 10)])"

declare digits.simps [simp del]

definition Number_toString :: "int \<Rightarrow> js_string" where
  "Number_toString i = (if i < 0 then 0x2D # digits (nat (- i)) else digits (nat i))"

text \<open>
  The body of an HTTP response is whatever the service sent: axios parses it as JSON and
  \<^verbatim>\<open>api.queryRepository\<close> returns it under the type \<^verbatim>\<open>QueryResponse\<close> without looking at
  it.  TypeScript's annotations are erased at run time, so the values that flow from a
  response into the transcript are modelled as run-time values.
\<close>

datatype jsval =
    JUndefined
  | JNull
  | JBool bool
  | JNum int
  | JStr js_string
  | JArr "jsval list"
  | JObj "(js_string \<times> jsval) list"

datatype js_error = NetworkError | HttpStatus nat | TypeError

text \<open>
  Reading \<^verbatim>\<open>v.answer\<close> or \<^verbatim>\<open>v.chunks\<close>: a TypeError on \<^verbatim>\<open>undefined\<close> and \<^verbatim>\<open>null\<close>, the
  property's value on an object that has it, and \<^verbatim>\<open>undefined\<close> on everything else (neither
  name is a property of a boolean, a number, a string or an array).
\<close>

fun property :: "jsval \<Rightarrow> js_string \<Rightarrow> jsval" where
  "property (JObj kvs) k = (case map_of kvs k of None \<Rightarrow> JUndefined | Some v \<Rightarrow> v)"
| "property v k = JUndefined"

definition member :: "jsval \<Rightarrow> js_string \<Rightarrow> js_error + jsval" where
  "member v k = (if v = JUndefined \<or> v = JNull then Inl TypeError else Inr (property v k))"

text \<open>A promise settles: it is rejected with an error or fulfilled with a value.\<close>

datatype settled = Rejected js_error | Fulfilled jsval

section \<open>The types of \<^verbatim>\<open>types/index.ts\<close>\<close>

record Chunk =
  chunk_text :: js_string
  file_path :: js_string

record QueryResponse =
  answer :: js_string
  chunks :: "Chunk list"

datatype Sender = User | Bot

text \<open>
  \<^verbatim>\<open>Omit<Message, 'id' | 'timestamp'>\<close>, the argument of \<^verbatim>\<open>addMessage\<close>, and \<^verbatim>\<open>Message\<close> itself.
  The field \<^verbatim>\<open>id\<close> is \<open>msg_id\<close> here; an absent \<^verbatim>\<open>chunks\<close> is \<open>JUndefined\<close>, which is what
  reading it yields.
\<close>

record Draft =
  content :: jsval
  sender :: Sender
  chunks :: jsval

record Message = Draft +
  msg_id :: js_string
  timestamp :: int

record IndexRequest =
  repo_url :: js_string
  branch :: "js_string option"

record QueryRequest =
  question :: js_string
  repo_url :: js_string
  top_k :: "int option"

text \<open>A well-typed \<^verbatim>\<open>QueryResponse\<close> as the run-time value it is.\<close>

definition Chunk_value :: "Chunk \<Rightarrow> jsval" where
  "Chunk_value c =
     JObj [(ascii ''text'', JStr (chunk_text c)), (ascii ''file_path'', JStr (file_path c))]"

definition QueryResponse_value :: "QueryResponse \<Rightarrow> jsval" where
  "QueryResponse_value r =
     JObj [(ascii ''answer'', JStr (answer r)),
           (ascii ''chunks'', JArr (map Chunk_value (QueryResponse.chunks r)))]"

section \<open>State, effects and suspended handlers\<close>

text \<open>
  The two readings of the clock that \<^verbatim>\<open>addMessage\<close> takes: \<^verbatim>\<open>Date.now()\<close> and \<^verbatim>\<open>new Date()\<close>,
  both in milliseconds since the epoch.
\<close>

record Clock =
  Date_now :: int
  new_Date :: int

text \<open>
  An async handler runs up to its \<^verbatim>\<open>await\<close>, and the rest of it runs when the awaited
  promise settles.  A suspended handler holds the variables it has captured.
\<close>

datatype continuation =
    SendMessage_await js_string js_string
  | IndexRepository_await js_string

datatype http_body = IndexBody IndexRequest | QueryBody QueryRequest

text \<open>What a handler does to the outside, in the order in which it does it.\<close>

datatype effect =
    AddMessage Message
  | SetIsProcessing bool
  | AxiosPost js_string http_body
  | ConsoleError js_string js_error

text \<open>
  \<open>messages\<close> and \<open>isProcessing\<close> are the state of \<^verbatim>\<open>App\<close>, \<open>message\<close> and \<open>repoUrl\<close> the state of
  \<^verbatim>\<open>ChatInput\<close>; \<open>suspended\<close> are the handlers waiting for their remote call and \<open>effects\<close> is
  the trace of everything done so far.
\<close>

record world =
  messages :: "Message list"
  isProcessing :: bool
  message :: js_string
  repoUrl :: js_string
  suspended :: "continuation list"
  effects :: "effect list"

definition initial :: world where
  "initial = \<lparr>messages = [], isProcessing = False, message = [], repoUrl = [],
              suspended = [], effects = []\<rparr>"

section \<open>\<^verbatim>\<open>services/api.ts\<close>\<close>

definition API_BASE_URL :: js_string where
  "API_BASE_URL = ascii ''http://localhost:8000/api''"

text \<open>\<^verbatim>\<open>await axios.post(url, data)\<close>: the request goes out and the caller \<open>k\<close> is suspended.\<close>

definition axios_post :: "js_string \<Rightarrow> http_body \<Rightarrow> continuation \<Rightarrow> world \<Rightarrow> world" where
  "axios_post url body k w =
     w\<lparr>suspended := suspended w @ [k], effects := effects w @ [AxiosPost url body]\<rparr>"

definition api_indexRepository :: "IndexRequest \<Rightarrow> continuation \<Rightarrow> world \<Rightarrow> world" where
  "api_indexRepository data k w = axios_post (API_BASE_URL @ ascii ''/index'') (IndexBody data) k w"

definition api_queryRepository :: "QueryRequest \<Rightarrow> continuation \<Rightarrow> world \<Rightarrow> world" where
  "api_queryRepository data k w = axios_post (API_BASE_URL @ ascii ''/query'') (QueryBody data) k w"

section \<open>\<^verbatim>\<open>App\<close>\<close>

definition setIsProcessing :: "bool \<Rightarrow> world \<Rightarrow> world" where
  "setIsProcessing b w = w\<lparr>isProcessing := b, effects := effects w @ [SetIsProcessing b]\<rparr>"

definition console_error :: "js_string \<Rightarrow> js_error \<Rightarrow> world \<Rightarrow> world" where
  "console_error label e w = w\<lparr>effects := effects w @ [ConsoleError label e]\<rparr>"

text \<open>
  \<^verbatim>\<open>addMessage\<close>: the new message is the draft with its id and timestamp, and the updater
  given to \<^verbatim>\<open>setMessages\<close> puts it after the messages there are.
\<close>

definition newMessage :: "Clock \<Rightarrow> Draft \<Rightarrow> Message" where
  "newMessage clk m =
     \<lparr>content = content m, sender = sender m, chunks = Draft.chunks m,
      msg_id = Number_toString (Date_now clk), timestamp = new_Date clk\<rparr>"

definition addMessage :: "Clock \<Rightarrow> Draft \<Rightarrow> world \<Rightarrow> world" where
  "addMessage clk m w =
     w\<lparr>messages := messages w @ [newMessage clk m],
       effects := effects w @ [AddMessage (newMessage clk m)]\<rparr>"

text \<open>
  The drafts the two handlers build.  \<open>errorMessage\<close> is the one of \<^verbatim>\<open>handleSendMessage\<close>;
  \<open>index_errorMessage\<close> is the \<^verbatim>\<open>errorMessage\<close> of \<^verbatim>\<open>handleIndexRepository\<close>.
\<close>

definition userMessage :: "js_string \<Rightarrow> Draft" where
  "userMessage c = \<lparr>content = JStr c, sender = User, chunks = JUndefined\<rparr>"

definition botMessage :: "jsval \<Rightarrow> jsval \<Rightarrow> Draft" where
  "botMessage response_answer response_chunks =
     \<lparr>content = response_answer, sender = Bot, chunks = response_chunks\<rparr>"

definition errorMessage :: Draft where
  "errorMessage =
     \<lparr>content = JStr (ascii ''Sorry, I encountered an error processing your request.''),
      sender = Bot, chunks = JUndefined\<rparr>"

definition successMessage :: "js_string \<Rightarrow> Draft" where
  "successMessage url =
     \<lparr>content = JStr (ascii ''Successfully indexed repository: '' @ url),
      sender = Bot, chunks = JUndefined\<rparr>"

definition index_errorMessage :: Draft where
  "index_errorMessage =
     \<lparr>content =
        JStr (ascii ''Failed to index repository. Please check the URL and try again.''),
      sender = Bot, chunks = JUndefined\<rparr>"

text \<open>\<^verbatim>\<open>handleSendMessage\<close> of \<^verbatim>\<open>App\<close>, up to its \<^verbatim>\<open>await\<close>.\<close>

definition App_handleSendMessage :: "Clock \<Rightarrow> js_string \<Rightarrow> js_string \<Rightarrow> world \<Rightarrow> world" where
  "App_handleSendMessage clk c url w =
     (let w1 = addMessage clk (userMessage c) w;
          w2 = setIsProcessing True w1
      in api_queryRepository \<lparr>question = c, repo_url = url, top_k = Some 3\<rparr>
           (SendMessage_await c url) w2)"

text \<open>The rest of its \<^verbatim>\<open>try\<close> block: either it throws or it has added the answer.\<close>

definition handleSendMessage_try :: "Clock \<Rightarrow> settled \<Rightarrow> world \<Rightarrow> js_error + world" where
  "handleSendMessage_try clk r w =
     (case r of
        Rejected e \<Rightarrow> Inl e
      | Fulfilled response \<Rightarrow>
          (case member response (ascii ''answer'') of
             Inl e \<Rightarrow> Inl e
           | Inr response_answer \<Rightarrow>
               (case member response (ascii ''chunks'') of
                  Inl e \<Rightarrow> Inl e
                | Inr response_chunks \<Rightarrow>
                    Inr (addMessage clk (botMessage response_answer response_chunks) w))))"

definition handleSendMessage_catch :: "Clock \<Rightarrow> js_error \<Rightarrow> world \<Rightarrow> world" where
  "handleSendMessage_catch clk e w =
     (let w1 = console_error (ascii ''Error sending message:'') e w
      in addMessage clk errorMessage w1)"

text \<open>\<^verbatim>\<open>try\<close>, \<^verbatim>\<open>catch\<close> and \<^verbatim>\<open>finally\<close> once the query has settled.\<close>

definition handleSendMessage_settled :: "Clock \<Rightarrow> settled \<Rightarrow> world \<Rightarrow> world" where
  "handleSendMessage_settled clk r w =
     setIsProcessing False
       (case handleSendMessage_try clk r w of
          Inr w' \<Rightarrow> w'
        | Inl e \<Rightarrow> handleSendMessage_catch clk e w)"

text \<open>\<^verbatim>\<open>handleIndexRepository\<close>, up to its \<^verbatim>\<open>await\<close>, and the rest of it.\<close>

definition handleIndexRepository :: "js_string \<Rightarrow> world \<Rightarrow> world" where
  "handleIndexRepository url w =
     (if \<not> truthy url then w
      else
        let w1 = setIsProcessing True w
        in api_indexRepository \<lparr>IndexRequest.repo_url = url, branch = None\<rparr>
             (IndexRepository_await url) w1)"

definition handleIndexRepository_settled :: "Clock \<Rightarrow> js_string \<Rightarrow> settled \<Rightarrow> world \<Rightarrow> world" where
  "handleIndexRepository_settled clk url r w =
     setIsProcessing False
       (case r of
          Fulfilled status \<Rightarrow> addMessage clk (successMessage url) w
        | Rejected e \<Rightarrow>
            addMessage clk index_errorMessage
              (console_error (ascii ''Error indexing repository:'') e w))"

section \<open>\<^verbatim>\<open>ChatInput\<close>\<close>

text \<open>
  \<^verbatim>\<open>onSendMessage\<close> and \<^verbatim>\<open>onIndexRepository\<close> are the two handlers of \<^verbatim>\<open>App\<close>.  The
  \<^verbatim>\<open>setTimeout\<close> of \<^verbatim>\<open>handleSendMessage\<close> only moves the focus.
\<close>

definition ChatInput_handleSendMessage :: "Clock \<Rightarrow> world \<Rightarrow> world" where
  "ChatInput_handleSendMessage clk w =
     (if truthy (trim (message w)) \<and> truthy (trim (repoUrl w))
      then (App_handleSendMessage clk (message w) (repoUrl w) w)\<lparr>message := []\<rparr>
      else w)"

definition handleIndexClick :: "world \<Rightarrow> world" where
  "handleIndexClick w =
     (if truthy (trim (repoUrl w)) then handleIndexRepository (repoUrl w) w else w)"

subsection \<open>The controls\<close>

definition isFormValid :: "world \<Rightarrow> bool" where
  "isFormValid w \<longleftrightarrow> length (trim (message w)) > 0 \<and> length (trim (repoUrl w)) > 0"

definition isRepoUrlValid :: "world \<Rightarrow> bool" where
  "isRepoUrlValid w \<longleftrightarrow> length (trim (repoUrl w)) > 0"

definition handleKeyDown :: "js_string \<Rightarrow> bool \<Rightarrow> Clock \<Rightarrow> world \<Rightarrow> world" where
  "handleKeyDown key shiftKey clk w =
     (if key = ascii ''Enter'' \<and> \<not> shiftKey then ChatInput_handleSendMessage clk w else w)"

text \<open>
  The handlers of \<^verbatim>\<open>ChatInput\<close> are closures of the component: they run only when the user
  acts on the control they are attached to.  A Chakra \<^verbatim>\<open>Button\<close> is disabled while its
  \<^verbatim>\<open>isDisabled\<close> or its \<^verbatim>\<open>isLoading\<close> is set, an \<^verbatim>\<open>Input\<close> while its \<^verbatim>\<open>isDisabled\<close> is set, and
  a disabled control passes no click, key or change of the user on.  The prop
  \<^verbatim>\<open>isProcessing\<close> is the state of \<^verbatim>\<open>App\<close>, rendered before the next action of the user.
\<close>

definition Button_disabled :: "bool \<Rightarrow> bool \<Rightarrow> bool" where
  "Button_disabled isDisabled isLoading \<longleftrightarrow> isDisabled \<or> isLoading"

text \<open>
  What the user can do in \<^verbatim>\<open>ChatInput\<close>: change the text of the repository field or of the
  question field, press a key in the question field, click Send, click Index.  (A key in
  the repository field only moves the focus.)
\<close>

datatype action =
    RepoUrl_onChange js_string
  | Message_onChange js_string
  | Message_onKeyDown js_string bool Clock
  | Send_onClick Clock
  | Index_onClick

fun act :: "action \<Rightarrow> world \<Rightarrow> world" where
  "act (RepoUrl_onChange v) w = (if isProcessing w then w else w\<lparr>repoUrl := v\<rparr>)"
| "act (Message_onChange v) w =
     (if isProcessing w \<or> \<not> isRepoUrlValid w then w else w\<lparr>message := v\<rparr>)"
| "act (Message_onKeyDown key shiftKey clk) w =
     (if isProcessing w \<or> \<not> isRepoUrlValid w then w else handleKeyDown key shiftKey clk w)"
| "act (Send_onClick clk) w =
     (if Button_disabled (\<not> isFormValid w) (isProcessing w) then w
      else ChatInput_handleSendMessage clk w)"
| "act Index_onClick w =
     (if Button_disabled (\<not> isRepoUrlValid w) (isProcessing w) then w
      else handleIndexClick w)"

section \<open>Intents and runs\<close>

text \<open>
  The two intents of the specification: the user has the question and the repository URL
  in the two fields and sends, or has the URL in its field and clicks Index.
\<close>

definition submitQuestion :: "Clock \<Rightarrow> js_string \<Rightarrow> js_string \<Rightarrow> world \<Rightarrow> world" where
  "submitQuestion clk q url w = ChatInput_handleSendMessage clk (w\<lparr>message := q, repoUrl := url\<rparr>)"

definition requestIndexing :: "js_string \<Rightarrow> world \<Rightarrow> world" where
  "requestIndexing url w = handleIndexClick (w\<lparr>repoUrl := url\<rparr>)"

text \<open>An intent is accepted when it passes the checks of the handlers.\<close>

definition accepted_question :: "js_string \<Rightarrow> js_string \<Rightarrow> bool" where
  "accepted_question q url \<longleftrightarrow> trim q \<noteq> [] \<and> trim url \<noteq> []"

definition accepted_indexing :: "js_string \<Rightarrow> bool" where
  "accepted_indexing url \<longleftrightarrow> trim url \<noteq> []"

text \<open>
  The same two intents as the user makes them, through the controls: the URL into its field,
  the question into its field, then Send (or Enter in the question field); the URL into its
  field, then Index.
\<close>

definition user_submitQuestion :: "Clock \<Rightarrow> js_string \<Rightarrow> js_string \<Rightarrow> world \<Rightarrow> world" where
  "user_submitQuestion clk q url w =
     act (Send_onClick clk) (act (Message_onChange q) (act (RepoUrl_onChange url) w))"

definition user_submitQuestion_Enter :: "Clock \<Rightarrow> js_string \<Rightarrow> js_string \<Rightarrow> world \<Rightarrow> world" where
  "user_submitQuestion_Enter clk q url w =
     act (Message_onKeyDown (ascii ''Enter'') False clk)
       (act (Message_onChange q) (act (RepoUrl_onChange url) w))"

definition user_requestIndexing :: "js_string \<Rightarrow> world \<Rightarrow> world" where
  "user_requestIndexing url w = act Index_onClick (act (RepoUrl_onChange url) w)"


text \<open>The remote call of the \<open>k\<close>-th suspended handler settles and the handler goes on.\<close>

fun resume :: "Clock \<Rightarrow> continuation \<Rightarrow> settled \<Rightarrow> world \<Rightarrow> world" where
  "resume clk (SendMessage_await c url) r w = handleSendMessage_settled clk r w"
| "resume clk (IndexRepository_await url) r w = handleIndexRepository_settled clk url r w"

definition settle :: "nat \<Rightarrow> settled \<Rightarrow> Clock \<Rightarrow> world \<Rightarrow> world option" where
  "settle k r clk w =
     (if k < length (suspended w)
      then Some (resume clk (suspended w ! k) r
                   (w\<lparr>suspended := take k (suspended w) @ drop (Suc k) (suspended w)\<rparr>))
      else None)"

datatype event =
    is_SubmitQuestion: SubmitQuestion Clock js_string js_string
  | is_RequestIndexing: RequestIndexing js_string
  | is_Settle: Settle nat settled Clock

fun step :: "event \<Rightarrow> world \<Rightarrow> world option" where
  "step (SubmitQuestion clk q url) w = Some (submitQuestion clk q url w)"
| "step (RequestIndexing url) w = Some (requestIndexing url w)"
| "step (Settle k r clk) w = settle k r clk w"

fun run :: "event list \<Rightarrow> world \<Rightarrow> world option" where
  "run [] w = Some w"
| "run (e # es) w = (case step e w of None \<Rightarrow> None | Some w' \<Rightarrow> run es w')"

section \<open>Notions the properties are stated with\<close>

fun accepted_SubmitQuestion :: "event \<Rightarrow> bool" where
  "accepted_SubmitQuestion (SubmitQuestion clk q url) = accepted_question q url"
| "accepted_SubmitQuestion e = False"

fun accepted_RequestIndexing :: "event \<Rightarrow> bool" where
  "accepted_RequestIndexing (RequestIndexing url) = accepted_indexing url"
| "accepted_RequestIndexing e = False"

definition accepted :: "event \<Rightarrow> bool" where
  "accepted e \<longleftrightarrow> accepted_SubmitQuestion e \<or> accepted_RequestIndexing e"

text \<open>The values written to \<open>isProcessing\<close> in a trace, in order.\<close>

fun busy_writes :: "effect list \<Rightarrow> bool list" where
  "busy_writes [] = []"
| "busy_writes (SetIsProcessing b # es) = b # busy_writes es"
| "busy_writes (e # es) = busy_writes es"

subsection \<open>The inputs of the scenarios\<close>

definition scenario_question :: js_string where
  "scenario_question = ascii ''What does main do?''"

definition scenario_url :: js_string where
  "scenario_url = ascii ''https://github.com/x/y''"

definition other_url :: js_string where
  "other_url = ascii ''https://github.com/x/z''"

definition scenario_response :: QueryResponse where
  "scenario_response =
     \<lparr>answer = ascii ''It starts the app.'',
      chunks = [\<lparr>chunk_text = ascii ''func main(){}'', file_path = ascii ''main.go''\<rparr>]\<rparr>"

definition padded_question :: js_string where
  "padded_question = ascii ''  hi ''"

definition blank :: js_string where
  "blank = ascii ''   ''"

definition asked_at :: Clock where
  "asked_at = \<lparr>Date_now = 1700000000000, new_Date = 1700000000000\<rparr>"

definition answered_at :: Clock where
  "answered_at = \<lparr>Date_now = 1700000000250, new_Date = 1700000000250\<rparr>"

text \<open>The session while the first question is in flight.\<close>

definition in_flight :: world where
  "in_flight = submitQuestion asked_at scenario_question scenario_url initial"

text \<open>What an event adds to the transcript once its remote call has settled.\<close>

fun weight :: "event \<Rightarrow> nat" where
  "weight (SubmitQuestion clk q url) = (if accepted_question q url then 2 else 0)"
| "weight (RequestIndexing url) = (if accepted_indexing url then 1 else 0)"
| "weight (Settle k r clk) = 0"

text \<open>A response with status 200 whose body is JSON but has neither field: \<^verbatim>\<open>{"status": "ok"}\<close>.\<close>

definition wrong_shape :: jsval where
  "wrong_shape = JObj [(ascii ''status'', JStr (ascii ''ok''))]"

text \<open>
  A session: a question and an indexing request, two blank intents, then the indexing call
  fails and the query is answered.
\<close>

definition busy_day :: "event list" where
  "busy_day =
     [SubmitQuestion asked_at scenario_question scenario_url,
      RequestIndexing scenario_url,
      SubmitQuestion asked_at blank scenario_url,
      RequestIndexing blank,
      Settle 1 (Rejected NetworkError) answered_at,
      Settle 0 (Fulfilled (QueryResponse_value scenario_response)) answered_at]"

section \<open>What each step does\<close>

lemma all_dropWhile: "(\<forall>x\<in>set (dropWhile P s). P x) \<longleftrightarrow> (\<forall>x\<in>set s. P x)"
  by (induction s) auto

text \<open>A string trims to the empty string exactly when it is empty or all white space.\<close>

lemma trim_Nil_iff: "trim s = [] \<longleftrightarrow> (\<forall>c\<in>set s. isWhiteSpace c)"
  by (simp add: trim_def dropWhile_eq_Nil_conv all_dropWhile)

lemma query_url: "API_BASE_URL @ ascii ''/query'' = ascii ''http://localhost:8000/api/query''"
  by (simp add: API_BASE_URL_def ascii_def)

lemma index_url: "API_BASE_URL @ ascii ''/index'' = ascii ''http://localhost:8000/api/index''"
  by (simp add: API_BASE_URL_def ascii_def)

lemma submitQuestion_accepted:
  "accepted_question q url \<Longrightarrow>
   submitQuestion clk q url w =
     w\<lparr>messages := messages w @ [newMessage clk (userMessage q)],
       isProcessing := True, message := [], repoUrl := url,
       suspended := suspended w @ [SendMessage_await q url],
       effects := effects w @
         [AddMessage (newMessage clk (userMessage q)),
          SetIsProcessing True,
          AxiosPost (ascii ''http://localhost:8000/api/query'')
            (QueryBody \<lparr>question = q, repo_url = url, top_k = Some 3\<rparr>)]\<rparr>"
  unfolding submitQuestion_def ChatInput_handleSendMessage_def App_handleSendMessage_def
    api_queryRepository_def query_url
  by (simp add: accepted_question_def truthy_def addMessage_def setIsProcessing_def
      axios_post_def Let_def)

lemma submitQuestion_rejected:
  "\<not> accepted_question q url \<Longrightarrow> submitQuestion clk q url w = w\<lparr>message := q, repoUrl := url\<rparr>"
  by (auto simp add: submitQuestion_def ChatInput_handleSendMessage_def accepted_question_def
      truthy_def)

lemma requestIndexing_accepted:
  "accepted_indexing url \<Longrightarrow>
   requestIndexing url w =
     w\<lparr>isProcessing := True, repoUrl := url,
       suspended := suspended w @ [IndexRepository_await url],
       effects := effects w @
         [SetIsProcessing True,
          AxiosPost (ascii ''http://localhost:8000/api/index'')
            (IndexBody \<lparr>IndexRequest.repo_url = url, branch = None\<rparr>)]\<rparr>"
  unfolding requestIndexing_def handleIndexClick_def handleIndexRepository_def
    api_indexRepository_def index_url
  by (auto simp add: accepted_indexing_def truthy_def setIsProcessing_def trim_def
      axios_post_def Let_def)

lemma requestIndexing_rejected:
  "\<not> accepted_indexing url \<Longrightarrow> requestIndexing url w = w\<lparr>repoUrl := url\<rparr>"
  by (simp add: requestIndexing_def handleIndexClick_def accepted_indexing_def truthy_def)

lemma settle_last:
  "suspended w = ks @ [k] \<Longrightarrow>
   settle (length ks) r clk w = Some (resume clk k r (w\<lparr>suspended := ks\<rparr>))"
  by (simp add: settle_def)

lemma handleSendMessage_settled_Fulfilled:
  "v \<noteq> JUndefined \<Longrightarrow> v \<noteq> JNull \<Longrightarrow>
   handleSendMessage_settled clk (Fulfilled v) w =
     w\<lparr>messages := messages w @
          [newMessage clk (botMessage (property v (ascii ''answer'')) (property v (ascii ''chunks'')))],
       isProcessing := False,
       effects := effects w @
         [AddMessage (newMessage clk
            (botMessage (property v (ascii ''answer'')) (property v (ascii ''chunks'')))),
          SetIsProcessing False]\<rparr>"
  by (simp add: handleSendMessage_settled_def handleSendMessage_try_def member_def
      addMessage_def setIsProcessing_def)

lemma handleSendMessage_settled_Rejected:
  "handleSendMessage_settled clk (Rejected e) w =
     w\<lparr>messages := messages w @ [newMessage clk errorMessage],
       isProcessing := False,
       effects := effects w @
         [ConsoleError (ascii ''Error sending message:'') e,
          AddMessage (newMessage clk errorMessage),
          SetIsProcessing False]\<rparr>"
  by (simp add: handleSendMessage_settled_def handleSendMessage_try_def
      handleSendMessage_catch_def addMessage_def setIsProcessing_def console_error_def Let_def)

lemma handleSendMessage_settled_nullish:
  "v = JUndefined \<or> v = JNull \<Longrightarrow>
   handleSendMessage_settled clk (Fulfilled v) w =
     w\<lparr>messages := messages w @ [newMessage clk errorMessage],
       isProcessing := False,
       effects := effects w @
         [ConsoleError (ascii ''Error sending message:'') TypeError,
          AddMessage (newMessage clk errorMessage),
          SetIsProcessing False]\<rparr>"
  by (auto simp add: handleSendMessage_settled_def handleSendMessage_try_def
      handleSendMessage_catch_def member_def addMessage_def setIsProcessing_def
      console_error_def Let_def)

lemma handleIndexRepository_settled_Fulfilled:
  "handleIndexRepository_settled clk url (Fulfilled v) w =
     w\<lparr>messages := messages w @ [newMessage clk (successMessage url)],
       isProcessing := False,
       effects := effects w @
         [AddMessage (newMessage clk (successMessage url)), SetIsProcessing False]\<rparr>"
  by (simp add: handleIndexRepository_settled_def addMessage_def setIsProcessing_def)

lemma handleIndexRepository_settled_Rejected:
  "handleIndexRepository_settled clk url (Rejected e) w =
     w\<lparr>messages := messages w @ [newMessage clk index_errorMessage],
       isProcessing := False,
       effects := effects w @
         [ConsoleError (ascii ''Error indexing repository:'') e,
          AddMessage (newMessage clk index_errorMessage), SetIsProcessing False]\<rparr>"
  by (simp add: handleIndexRepository_settled_def addMessage_def setIsProcessing_def
      console_error_def)

lemma QueryResponse_value_props:
  "property (QueryResponse_value r) (ascii ''answer'') = JStr (answer r)"
  "property (QueryResponse_value r) (ascii ''chunks'') =
     JArr (map Chunk_value (QueryResponse.chunks r))"
  "QueryResponse_value r \<noteq> JUndefined" "QueryResponse_value r \<noteq> JNull"
  by (simp_all add: QueryResponse_value_def ascii_def)

subsection \<open>The scenario inputs\<close>

lemma accepted_scenario: "accepted_question scenario_question scenario_url"
  by (simp add: accepted_question_def scenario_question_def scenario_url_def trim_def ascii_def
      isWhiteSpace_def)

lemma accepted_scenario_url: "accepted_indexing scenario_url"
  by (simp add: accepted_indexing_def scenario_url_def trim_def ascii_def isWhiteSpace_def)

lemma accepted_padded: "accepted_question padded_question scenario_url"
  by (simp add: accepted_question_def padded_question_def scenario_url_def trim_def ascii_def
      isWhiteSpace_def)

lemma trim_padded: "trim padded_question = ascii ''hi''"
  by (simp add: padded_question_def trim_def ascii_def isWhiteSpace_def)

lemma trim_blank: "trim blank = []"
  by (simp add: blank_def trim_def ascii_def isWhiteSpace_def)

lemma in_flight_eq:
  "in_flight =
     initial\<lparr>messages := [newMessage asked_at (userMessage scenario_question)],
       isProcessing := True, message := [], repoUrl := scenario_url,
       suspended := [SendMessage_await scenario_question scenario_url],
       effects :=
         [AddMessage (newMessage asked_at (userMessage scenario_question)),
          SetIsProcessing True,
          AxiosPost (ascii ''http://localhost:8000/api/query'')
            (QueryBody
               \<lparr>question = scenario_question, repo_url = scenario_url, top_k = Some 3\<rparr>)]\<rparr>"
  unfolding in_flight_def by (simp add: submitQuestion_accepted [OF accepted_scenario] initial_def)

lemma busy_writes_append: "busy_writes (xs @ ys) = busy_writes xs @ busy_writes ys"
  by (induction xs rule: busy_writes.induct) simp_all

lemma resume_shape:
  "\<exists>m post. resume clk k r w =
      w\<lparr>messages := messages w @ [m], isProcessing := False,
        effects := effects w @ post @ [SetIsProcessing False]\<rparr> \<and>
      busy_writes post = [] \<and> sender m = Bot"
proof (cases k)
  case (SendMessage_await c url)
  show ?thesis
  proof (cases r)
    case (Rejected e)
    show ?thesis
      unfolding SendMessage_await Rejected resume.simps handleSendMessage_settled_Rejected
      by (intro exI [of _ "newMessage clk errorMessage"]
          exI [of _ "[ConsoleError (ascii ''Error sending message:'') e,
                      AddMessage (newMessage clk errorMessage)]"])
        (simp add: newMessage_def errorMessage_def)
  next
    case (Fulfilled v)
    show ?thesis
    proof (cases "v = JUndefined \<or> v = JNull")
      case True
      show ?thesis
        unfolding SendMessage_await Fulfilled resume.simps
          handleSendMessage_settled_nullish [OF True]
        by (intro exI [of _ "newMessage clk errorMessage"]
            exI [of _ "[ConsoleError (ascii ''Error sending message:'') TypeError,
                        AddMessage (newMessage clk errorMessage)]"])
          (simp add: newMessage_def errorMessage_def)
    next
      case False
      then have v: "v \<noteq> JUndefined" "v \<noteq> JNull" by simp_all
      show ?thesis
        unfolding SendMessage_await Fulfilled resume.simps
          handleSendMessage_settled_Fulfilled [OF v]
        by (intro exI [of _ "newMessage clk
              (botMessage (property v (ascii ''answer'')) (property v (ascii ''chunks'')))"]
            exI [of _ "[AddMessage (newMessage clk
              (botMessage (property v (ascii ''answer'')) (property v (ascii ''chunks''))))]"])
          (simp add: newMessage_def botMessage_def)
    qed
  qed
next
  case (IndexRepository_await url)
  show ?thesis
  proof (cases r)
    case (Rejected e)
    show ?thesis
      unfolding IndexRepository_await Rejected resume.simps handleIndexRepository_settled_Rejected
      by (intro exI [of _ "newMessage clk index_errorMessage"]
          exI [of _ "[ConsoleError (ascii ''Error indexing repository:'') e,
                      AddMessage (newMessage clk index_errorMessage)]"])
        (simp add: newMessage_def index_errorMessage_def)
  next
    case (Fulfilled v)
    show ?thesis
      unfolding IndexRepository_await Fulfilled resume.simps handleIndexRepository_settled_Fulfilled
      by (intro exI [of _ "newMessage clk (successMessage url)"]
          exI [of _ "[AddMessage (newMessage clk (successMessage url))]"])
        (simp add: newMessage_def successMessage_def)
  qed
qed

lemma run_question:
  assumes "accepted_question q url"
  shows "run [SubmitQuestion c1 q url, Settle (length (suspended w)) r c2] w =
     Some (handleSendMessage_settled c2 r
       ((submitQuestion c1 q url w)\<lparr>suspended := suspended w\<rparr>))"
proof -
  have "suspended (submitQuestion c1 q url w) = suspended w @ [SendMessage_await q url]"
    by (simp add: submitQuestion_accepted [OF assms])
  then show ?thesis by (simp add: settle_last)
qed

lemma run_indexing:
  assumes "accepted_indexing url"
  shows "run [RequestIndexing url, Settle (length (suspended w)) r clk] w =
     Some (handleIndexRepository_settled clk url r
       ((requestIndexing url w)\<lparr>suspended := suspended w\<rparr>))"
proof -
  have "suspended (requestIndexing url w) = suspended w @ [IndexRepository_await url]"
    by (simp add: requestIndexing_accepted [OF assms])
  then show ?thesis by (simp add: settle_last)
qed

lemma not_accepted_blank:
  "\<not> accepted_question blank scenario_url" "\<not> accepted_indexing blank"
  by (simp_all add: accepted_question_def accepted_indexing_def trim_blank)

lemma busy_day_run: "\<exists>w'. run busy_day initial = Some w' \<and> suspended w' = []"
  unfolding busy_day_def
  by (simp add: accepted_scenario accepted_scenario_url not_accepted_blank
      submitQuestion_accepted submitQuestion_rejected requestIndexing_accepted
      requestIndexing_rejected settle_def handleSendMessage_settled_Fulfilled
      handleIndexRepository_settled_Rejected QueryResponse_value_props initial_def)

lemma step_grows:
  assumes "step e w = Some w'"
  shows "prefix (messages w) (messages w') \<and>
         length (messages w') + length (suspended w') =
           length (messages w) + length (suspended w) + weight e"
proof (cases e)
  case (SubmitQuestion clk q url)
  with assms show ?thesis
    by (cases "accepted_question q url")
      (auto simp: submitQuestion_accepted submitQuestion_rejected)
next
  case (RequestIndexing url)
  with assms show ?thesis
    by (cases "accepted_indexing url")
      (auto simp: requestIndexing_accepted requestIndexing_rejected)
next
  case (Settle k r clk)
  let ?w0 = "w\<lparr>suspended := take k (suspended w) @ drop (Suc k) (suspended w)\<rparr>"
  from assms Settle have k: "k < length (suspended w)"
    and w': "w' = resume clk (suspended w ! k) r ?w0"
    by (auto simp: settle_def split: if_splits)
  obtain m post where
    "resume clk (suspended w ! k) r ?w0 =
       ?w0\<lparr>messages := messages ?w0 @ [m], isProcessing := False,
           effects := effects ?w0 @ post @ [SetIsProcessing False]\<rparr>"
    using resume_shape by blast
  with w' have "messages w' = messages w @ [m]"
    and "suspended w' = take k (suspended w) @ drop (Suc k) (suspended w)"
    by simp_all
  with k show ?thesis by (simp add: Settle)
qed

lemma run_grows:
  "run es w = Some w' \<Longrightarrow>
   prefix (messages w) (messages w') \<and>
   length (messages w') + length (suspended w') =
     length (messages w) + length (suspended w) + sum_list (map weight es)"
proof (induction es arbitrary: w)
  case Nil
  then show ?case by simp
next
  case (Cons e es)
  then obtain w1 where 1: "step e w = Some w1" and 2: "run es w1 = Some w'"
    by (auto split: option.splits)
  from step_grows [OF 1] Cons.IH [OF 2] show ?case
    by (auto intro: prefix_order.trans)
qed

lemma sum_weight:
  "sum_list (map weight es) =
     2 * length (filter accepted_SubmitQuestion es) + length (filter accepted_RequestIndexing es)"
proof (induction es)
  case Nil
  then show ?case by simp
next
  case (Cons e es)
  then show ?case by (cases e) simp_all
qed

lemma accepted_other_url: "accepted_question scenario_question other_url"
  by (simp add: accepted_question_def scenario_question_def other_url_def trim_def ascii_def
      isWhiteSpace_def)

lemma fields_typed: "(w::world)\<lparr>repoUrl := url, message := q\<rparr> = w\<lparr>message := q, repoUrl := url\<rparr>"
  by (cases w) simp

lemma act_idle_question:
  assumes "\<not> isProcessing w" "accepted_question q url"
  shows "user_submitQuestion clk q url w = submitQuestion clk q url w"
    and "user_submitQuestion_Enter clk q url w = submitQuestion clk q url w"
  using assms
  by (simp_all add: user_submitQuestion_def user_submitQuestion_Enter_def submitQuestion_def
      accepted_question_def isRepoUrlValid_def isFormValid_def Button_disabled_def
      handleKeyDown_def fields_typed)

lemma act_idle_indexing:
  assumes "\<not> isProcessing w" "accepted_indexing url"
  shows "user_requestIndexing url w = requestIndexing url w"
  using assms
  by (simp add: user_requestIndexing_def requestIndexing_def accepted_indexing_def
      isRepoUrlValid_def Button_disabled_def)

section \<open>The concurrency guard\<close>

text \<open>
  Claim C1: an intent made while \<open>busy\<close> is true is rejected.  While \<open>isProcessing\<close> is true
  both fields and both buttons are disabled, so whatever the user does (and so a whole
  \<^verbatim>\<open>submitQuestion\<close>, by Send or by Enter, and a whole \<^verbatim>\<open>requestIndexing\<close>) reaches no
  handler: no user message and no assistant message is appended, no remote call goes out,
  and the transcript, \<open>busy\<close> and everything else are as before.
\<close>

theorem busy_intent_rejected:
  "isProcessing w \<Longrightarrow>
   act a w = w \<and>
   user_submitQuestion clk q url w = w \<and>
   user_submitQuestion_Enter clk q url w = w \<and>
   user_requestIndexing url w = w"
proof -
  assume busy: "isProcessing w"
  have "act a w = w" for a
    using busy by (cases a) (simp_all add: Button_disabled_def)
  then show ?thesis
    by (simp add: user_submitQuestion_def user_submitQuestion_Enter_def user_requestIndexing_def)
qed

theorem busy_intent_rejected_witness:
  "isProcessing in_flight \<and>
   accepted_question scenario_question other_url \<and>
   user_submitQuestion answered_at scenario_question other_url in_flight = in_flight \<and>
   user_submitQuestion_Enter answered_at scenario_question other_url in_flight = in_flight \<and>
   user_requestIndexing other_url in_flight = in_flight \<and>
   messages (user_submitQuestion answered_at scenario_question other_url in_flight) =
     [newMessage asked_at (userMessage scenario_question)] \<and>
   user_submitQuestion asked_at scenario_question scenario_url initial = in_flight"
proof -
  have busy: "isProcessing in_flight" by (simp add: in_flight_eq)
  have idle: "\<not> isProcessing initial" by (simp add: initial_def)
  have "messages in_flight = [newMessage asked_at (userMessage scenario_question)]"
    by (simp add: in_flight_eq)
  then show ?thesis
    using busy accepted_other_url
      busy_intent_rejected [OF busy, of "Index_onClick" answered_at scenario_question other_url]
      act_idle_question(1) [OF idle accepted_scenario, of asked_at]
    by (simp add: in_flight_def)
qed

section \<open>The busy flag\<close>

text \<open>
  Claim C2: an accepted operation that starts with \<open>busy\<close> false takes \<open>busy\<close> from false to
  true and back to false, once.  The part of the handler before its \<^verbatim>\<open>await\<close> writes true
  once, right before the remote call goes out; however the call settles, the rest of the
  handler writes false once, as the last thing it does; \<open>busy\<close> is false after that.
\<close>

theorem busy_set_and_reset_once:
  "accepted e \<Longrightarrow> \<not> isProcessing w \<Longrightarrow>
   \<exists>w1 k pre url body.
     step e w = Some w1 \<and> isProcessing w1 \<and> suspended w1 = suspended w @ [k] \<and>
     effects w1 = effects w @ pre @ [SetIsProcessing True, AxiosPost url body] \<and>
     busy_writes pre = [] \<and>
     (\<forall>r clk. \<exists>w2 post.
        settle (length (suspended w)) r clk w1 = Some w2 \<and> \<not> isProcessing w2 \<and>
        effects w2 = effects w1 @ post @ [SetIsProcessing False] \<and> busy_writes post = [])"
proof -
  have later: "\<forall>r clk. \<exists>w2 post.
        settle (length (suspended w)) r clk w1 = Some w2 \<and> \<not> isProcessing w2 \<and>
        effects w2 = effects w1 @ post @ [SetIsProcessing False] \<and> busy_writes post = []"
    if susp: "suspended w1 = suspended w @ [k]" for w1 k
  proof (intro allI)
    fix r clk
    obtain m post where
      "resume clk k r (w1\<lparr>suspended := suspended w\<rparr>) =
         (w1\<lparr>suspended := suspended w\<rparr>)
           \<lparr>messages := messages (w1\<lparr>suspended := suspended w\<rparr>) @ [m], isProcessing := False,
            effects := effects (w1\<lparr>suspended := suspended w\<rparr>) @ post @ [SetIsProcessing False]\<rparr>"
      and "busy_writes post = []"
      using resume_shape by blast
    then show "\<exists>w2 post.
        settle (length (suspended w)) r clk w1 = Some w2 \<and> \<not> isProcessing w2 \<and>
        effects w2 = effects w1 @ post @ [SetIsProcessing False] \<and> busy_writes post = []"
      by (simp add: settle_last [OF susp])
  qed
  assume acc: "accepted e" and idle: "\<not> isProcessing w"
  show ?thesis
  proof (cases e)
    case (SubmitQuestion clk q url)
    with acc have a: "accepted_question q url" by (simp add: accepted_def)
    let ?w1 = "submitQuestion clk q url w"
    have s: "suspended ?w1 = suspended w @ [SendMessage_await q url]"
      by (simp add: submitQuestion_accepted [OF a])
    have "step e w = Some ?w1 \<and> isProcessing ?w1 \<and>
       effects ?w1 = effects w @ [AddMessage (newMessage clk (userMessage q))] @
         [SetIsProcessing True,
          AxiosPost (ascii ''http://localhost:8000/api/query'')
            (QueryBody \<lparr>question = q, repo_url = url, top_k = Some 3\<rparr>)] \<and>
       busy_writes [AddMessage (newMessage clk (userMessage q))] = []"
      by (simp add: SubmitQuestion submitQuestion_accepted [OF a])
    with s later [OF s] show ?thesis by blast
  next
    case (RequestIndexing url)
    with acc have a: "accepted_indexing url" by (simp add: accepted_def)
    let ?w1 = "requestIndexing url w"
    have s: "suspended ?w1 = suspended w @ [IndexRepository_await url]"
      by (simp add: requestIndexing_accepted [OF a])
    have "step e w = Some ?w1 \<and> isProcessing ?w1 \<and>
       effects ?w1 = effects w @ [] @
         [SetIsProcessing True,
          AxiosPost (ascii ''http://localhost:8000/api/index'')
            (IndexBody \<lparr>IndexRequest.repo_url = url, branch = None\<rparr>)] \<and>
       busy_writes [] = []"
      by (simp add: RequestIndexing requestIndexing_accepted [OF a])
    with s later [OF s] show ?thesis by blast
  next
    case (Settle k r clk)
    with acc show ?thesis by (simp add: accepted_def)
  qed
qed

theorem busy_set_and_reset_once_witness:
  "accepted (SubmitQuestion asked_at scenario_question scenario_url) \<and>
   \<not> isProcessing initial \<and>
   isProcessing (submitQuestion asked_at scenario_question scenario_url initial) \<and>
   map_option isProcessing
     (settle 0 (Rejected NetworkError) answered_at
        (submitQuestion asked_at scenario_question scenario_url initial)) = Some False \<and>
   map_option isProcessing
     (settle 0 (Fulfilled (QueryResponse_value scenario_response)) answered_at
        (submitQuestion asked_at scenario_question scenario_url initial)) = Some False"
proof -
  have a: "accepted (SubmitQuestion asked_at scenario_question scenario_url)"
    by (simp add: accepted_def accepted_scenario)
  have i: "\<not> isProcessing initial" and s: "suspended initial = []"
    by (simp_all add: initial_def)
  from busy_set_and_reset_once [OF a i]
  obtain w1 where 1: "step (SubmitQuestion asked_at scenario_question scenario_url) initial = Some w1"
    and 2: "isProcessing w1"
    and 3: "\<forall>r clk. \<exists>w2. settle (length (suspended initial)) r clk w1 = Some w2 \<and> \<not> isProcessing w2"
    by blast
  from 1 have w1: "w1 = submitQuestion asked_at scenario_question scenario_url initial"
    by simp
  from 3 [rule_format, of "Rejected NetworkError" answered_at]
    3 [rule_format, of "Fulfilled (QueryResponse_value scenario_response)" answered_at]
  show ?thesis
    using a i 2 unfolding w1 s by auto
qed

section \<open>Questions\<close>

text \<open>
  Claim C3: an accepted question whose query is answered with \<^verbatim>\<open>{answer, chunks}\<close>.  The user
  message with the question is appended first, then \<open>busy\<close> is set and the query is posted with
  the question, the repository URL and \<^verbatim>\<open>top_k\<close> 3; when the answer arrives, one assistant
  message is appended with the answer as its content and the chunks as its chunks, and \<open>busy\<close>
  is reset.  Nothing else is done.
\<close>

theorem answered_question:
  "accepted_question q url \<Longrightarrow>
   run [SubmitQuestion c1 q url,
        Settle (length (suspended w)) (Fulfilled (QueryResponse_value resp)) c2] w =
     Some (w\<lparr>messages := messages w @
               [newMessage c1 (userMessage q),
                newMessage c2 (botMessage (JStr (answer resp))
                  (JArr (map Chunk_value (QueryResponse.chunks resp))))],
             isProcessing := False, message := [], repoUrl := url,
             effects := effects w @
               [AddMessage (newMessage c1 (userMessage q)),
                SetIsProcessing True,
                AxiosPost (ascii ''http://localhost:8000/api/query'')
                  (QueryBody \<lparr>question = q, repo_url = url, top_k = Some 3\<rparr>),
                AddMessage (newMessage c2 (botMessage (JStr (answer resp))
                  (JArr (map Chunk_value (QueryResponse.chunks resp))))),
                SetIsProcessing False]\<rparr>)"
  unfolding run_question
  by (simp add: handleSendMessage_settled_Fulfilled QueryResponse_value_props
      submitQuestion_accepted)

theorem answered_question_witness:
  "accepted_question scenario_question scenario_url \<and>
   map_option messages
     (run [SubmitQuestion asked_at scenario_question scenario_url,
           Settle 0 (Fulfilled (QueryResponse_value scenario_response)) answered_at] initial) =
     Some [\<lparr>content = JStr (ascii ''What does main do?''), sender = User, chunks = JUndefined,
            msg_id = ascii ''1700000000000'', timestamp = 1700000000000\<rparr>,
           \<lparr>content = JStr (ascii ''It starts the app.''), sender = Bot,
            chunks = JArr [JObj [(ascii ''text'', JStr (ascii ''func main(){}'')),
                                 (ascii ''file_path'', JStr (ascii ''main.go''))]],
            msg_id = ascii ''1700000000250'', timestamp = 1700000000250\<rparr>]"
proof -
  have ids: "Number_toString 1700000000000 = ascii ''1700000000000''"
    "Number_toString 1700000000250 = ascii ''1700000000250''"
    by (simp_all add: Number_toString_def digits.simps ascii_def)
  have "suspended initial = []" by (simp add: initial_def)
  then show ?thesis
    using answered_question [OF accepted_scenario, of asked_at initial scenario_response answered_at]
      accepted_scenario
    by (simp add: initial_def newMessage_def userMessage_def botMessage_def ids asked_at_def
        answered_at_def scenario_response_def Chunk_value_def scenario_question_def)
qed

text \<open>
  Claim C4 says that a query that fails, a malformed response included, ends in one assistant
  message with the fixed fallback content.  The body of a response is not looked at before its
  two fields are read: a body of another shape is taken as an answer, and the assistant message
  gets \<^verbatim>\<open>undefined\<close> as its content instead of the fallback.
\<close>

theorem wrong_shape_counterexample:
  "run [SubmitQuestion asked_at scenario_question scenario_url,
        Settle 0 (Fulfilled wrong_shape) answered_at] initial =
     Some (initial\<lparr>messages :=
               [newMessage asked_at (userMessage scenario_question),
                newMessage answered_at (botMessage JUndefined JUndefined)],
             isProcessing := False, message := [], repoUrl := scenario_url,
             effects :=
               [AddMessage (newMessage asked_at (userMessage scenario_question)),
                SetIsProcessing True,
                AxiosPost (ascii ''http://localhost:8000/api/query'')
                  (QueryBody \<lparr>question = scenario_question, repo_url = scenario_url,
                     top_k = Some 3\<rparr>),
                AddMessage (newMessage answered_at (botMessage JUndefined JUndefined)),
                SetIsProcessing False]\<rparr>) \<and>
   content (newMessage answered_at (botMessage JUndefined JUndefined)) = JUndefined \<and>
   content (newMessage answered_at (botMessage JUndefined JUndefined)) \<noteq> content errorMessage"
proof -
  have w: "wrong_shape \<noteq> JUndefined" "wrong_shape \<noteq> JNull"
    "property wrong_shape (ascii ''answer'') = JUndefined"
    "property wrong_shape (ascii ''chunks'') = JUndefined"
    by (simp_all add: wrong_shape_def ascii_def)
  have "suspended initial = []" by (simp add: initial_def)
  then have "run [SubmitQuestion asked_at scenario_question scenario_url,
        Settle 0 (Fulfilled wrong_shape) answered_at] initial =
     Some (handleSendMessage_settled answered_at (Fulfilled wrong_shape)
       ((submitQuestion asked_at scenario_question scenario_url initial)\<lparr>suspended := []\<rparr>))"
    using run_question [OF accepted_scenario, of asked_at initial] by simp
  then show ?thesis
    by (simp add: handleSendMessage_settled_Fulfilled w submitQuestion_accepted accepted_scenario
        initial_def newMessage_def botMessage_def errorMessage_def)
qed

text \<open>
  Claim C4 as the code has it: when the query is rejected (a network error, a status outside
  2xx) or its body is \<^verbatim>\<open>null\<close> or \<^verbatim>\<open>undefined\<close>, so that reading the answer throws, one
  assistant message with the fixed fallback content and no chunks follows the user message,
  \<open>busy\<close> is false, and the handler has left the suspended ones: it ends normally.
\<close>

theorem failed_question:
  "accepted_question q url \<Longrightarrow>
   r = Rejected e \<or> r = Fulfilled JNull \<or> r = Fulfilled JUndefined \<Longrightarrow>
   map_option messages (run [SubmitQuestion c1 q url, Settle (length (suspended w)) r c2] w) =
     Some (messages w @ [newMessage c1 (userMessage q), newMessage c2 errorMessage]) \<and>
   map_option isProcessing (run [SubmitQuestion c1 q url, Settle (length (suspended w)) r c2] w) =
     Some False \<and>
   map_option suspended (run [SubmitQuestion c1 q url, Settle (length (suspended w)) r c2] w) =
     Some (suspended w)"
  unfolding run_question
  by (auto simp add: handleSendMessage_settled_Rejected handleSendMessage_settled_nullish
      submitQuestion_accepted)

theorem failed_question_witness:
  "accepted_question scenario_question scenario_url \<and>
   map_option messages
     (run [SubmitQuestion asked_at scenario_question scenario_url,
           Settle 0 (Rejected NetworkError) answered_at] initial) =
     Some [\<lparr>content = JStr (ascii ''What does main do?''), sender = User, chunks = JUndefined,
            msg_id = ascii ''1700000000000'', timestamp = 1700000000000\<rparr>,
           \<lparr>content = JStr (ascii ''Sorry, I encountered an error processing your request.''),
            sender = Bot, chunks = JUndefined,
            msg_id = ascii ''1700000000250'', timestamp = 1700000000250\<rparr>]"
proof -
  have ids: "Number_toString 1700000000000 = ascii ''1700000000000''"
    "Number_toString 1700000000250 = ascii ''1700000000250''"
    by (simp_all add: Number_toString_def digits.simps ascii_def)
  have "suspended initial = []" by (simp add: initial_def)
  then show ?thesis
    using failed_question [OF accepted_scenario, of "Rejected NetworkError" NetworkError
        asked_at initial answered_at] accepted_scenario
    by (simp add: initial_def newMessage_def userMessage_def errorMessage_def ids asked_at_def
        answered_at_def scenario_question_def)
qed

section \<open>Indexing\<close>

text \<open>
  Claim C5: an accepted indexing request appends no user message, and when its call settles it
  appends exactly one assistant message without chunks.  If the call succeeded the content
  confirms the indexing of the repository URL; if it failed the content is one fixed message,
  which asks to check the URL.
\<close>

theorem indexing_one_assistant_turn:
  "accepted_indexing url \<Longrightarrow>
   messages (requestIndexing url w) = messages w \<and>
   map_option messages (run [RequestIndexing url, Settle (length (suspended w)) r clk] w) =
     Some (messages w @
       [newMessage clk
          (case r of Fulfilled status \<Rightarrow> successMessage url | Rejected e \<Rightarrow> index_errorMessage)]) \<and>
   content (successMessage url) = JStr (ascii ''Successfully indexed repository: '' @ url) \<and>
   content index_errorMessage =
     JStr (ascii ''Failed to index repository. Please check the URL and try again.'') \<and>
   sender (successMessage url) = Bot \<and> sender index_errorMessage = Bot \<and>
   Draft.chunks (successMessage url) = JUndefined \<and> Draft.chunks index_errorMessage = JUndefined"
  unfolding run_indexing
  by (cases r)
    (simp_all add: handleIndexRepository_settled_Fulfilled handleIndexRepository_settled_Rejected
      requestIndexing_accepted successMessage_def index_errorMessage_def)

theorem indexing_one_assistant_turn_witness:
  "accepted_indexing scenario_url \<and>
   map_option messages
     (run [RequestIndexing scenario_url, Settle 0 (Fulfilled (JObj [])) answered_at] initial) =
     Some [\<lparr>content = JStr (ascii ''Successfully indexed repository: https://github.com/x/y''),
            sender = Bot, chunks = JUndefined,
            msg_id = ascii ''1700000000250'', timestamp = 1700000000250\<rparr>] \<and>
   map_option messages
     (run [RequestIndexing scenario_url, Settle 0 (Rejected (HttpStatus 500)) answered_at] initial) =
     Some [\<lparr>content =
              JStr (ascii ''Failed to index repository. Please check the URL and try again.''),
            sender = Bot, chunks = JUndefined,
            msg_id = ascii ''1700000000250'', timestamp = 1700000000250\<rparr>]"
proof -
  have id: "Number_toString 1700000000250 = ascii ''1700000000250''"
    by (simp add: Number_toString_def digits.simps ascii_def)
  have "suspended initial = []" by (simp add: initial_def)
  then show ?thesis
    using indexing_one_assistant_turn [OF accepted_scenario_url, of initial "Fulfilled (JObj [])" answered_at]
      indexing_one_assistant_turn [OF accepted_scenario_url, of initial "Rejected (HttpStatus 500)" answered_at]
      accepted_scenario_url
    by (simp add: initial_def newMessage_def successMessage_def index_errorMessage_def id
        answered_at_def scenario_url_def ascii_def)
qed

section \<open>Validation of the two strings\<close>

text \<open>
  Claim C6: when the question or the repository URL trims to the empty string,
  \<^verbatim>\<open>submitQuestion\<close> does nothing, and when the repository URL trims to the empty string,
  \<^verbatim>\<open>requestIndexing\<close> does nothing: the transcript, the trace of effects (so no remote call),
  the suspended handlers and \<open>busy\<close> are what they were.
\<close>

theorem blank_input_is_noop:
  "(trim q = [] \<or> trim url = [] \<longrightarrow>
      messages (submitQuestion clk q url w) = messages w \<and>
      effects (submitQuestion clk q url w) = effects w \<and>
      suspended (submitQuestion clk q url w) = suspended w \<and>
      isProcessing (submitQuestion clk q url w) = isProcessing w) \<and>
   (trim url = [] \<longrightarrow>
      messages (requestIndexing url w) = messages w \<and>
      effects (requestIndexing url w) = effects w \<and>
      suspended (requestIndexing url w) = suspended w \<and>
      isProcessing (requestIndexing url w) = isProcessing w)"
proof -
  have "\<not> accepted_question q url" if "trim q = [] \<or> trim url = []"
    using that by (auto simp: accepted_question_def)
  moreover have "\<not> accepted_indexing url" if "trim url = []"
    using that by (simp add: accepted_indexing_def)
  ultimately show ?thesis
    by (simp add: submitQuestion_rejected requestIndexing_rejected)
qed

theorem blank_input_is_noop_witness:
  "trim blank = [] \<and>
   messages (submitQuestion asked_at blank scenario_url in_flight) = messages in_flight \<and>
   effects (submitQuestion asked_at scenario_question blank in_flight) = effects in_flight \<and>
   effects (requestIndexing blank in_flight) = effects in_flight"
  using blank_input_is_noop [of blank scenario_url asked_at in_flight]
    blank_input_is_noop [of scenario_question blank asked_at in_flight]
  by (simp add: trim_blank)

section \<open>The transcript\<close>

text \<open>
  Claim C7: along every sequence of intents and settled calls the transcript only grows at its
  end: what was there stays, in its order, as a prefix.  From the initial state, once no
  handler is suspended any more, the transcript has two messages for every accepted question
  and one for every accepted indexing request.
\<close>

theorem transcript_append_only:
  "run es w = Some w' \<Longrightarrow>
   prefix (messages w) (messages w') \<and>
   length (messages w) \<le> length (messages w') \<and>
   (w = initial \<and> suspended w' = [] \<longrightarrow>
      length (messages w') =
        2 * length (filter accepted_SubmitQuestion es) +
        length (filter accepted_RequestIndexing es))"
  using run_grows [of es w w'] by (auto simp: sum_weight initial_def prefix_length_le)

theorem transcript_append_only_witness:
  "run busy_day initial \<noteq> None \<and>
   suspended (the (run busy_day initial)) = [] \<and>
   length (filter accepted_SubmitQuestion busy_day) = 1 \<and>
   length (filter accepted_RequestIndexing busy_day) = 1 \<and>
   length (messages (the (run busy_day initial))) = 3"
proof -
  obtain w' where r: "run busy_day initial = Some w'" and s: "suspended w' = []"
    using busy_day_run by blast
  have c: "length (filter accepted_SubmitQuestion busy_day) = 1"
    "length (filter accepted_RequestIndexing busy_day) = 1"
    by (simp_all add: busy_day_def accepted_scenario accepted_scenario_url not_accepted_blank)
  from transcript_append_only [OF r] s c r show ?thesis by simp
qed

section \<open>The repository of the conversation\<close>




section \<open>Message ids\<close>

text \<open>
  Claim C9 says that two messages never have the same id.  The id is the reading of
  \<^verbatim>\<open>Date.now()\<close> and nothing else.  When a query is rejected within the millisecond in which
  the question was sent, the user message and the assistant message are two different messages
  with one id.
\<close>

theorem same_millisecond_same_id:
  "run [SubmitQuestion asked_at scenario_question scenario_url,
        Settle 0 (Rejected NetworkError) asked_at] initial =
     Some (initial\<lparr>messages :=
               [newMessage asked_at (userMessage scenario_question),
                newMessage asked_at errorMessage],
             isProcessing := False, message := [], repoUrl := scenario_url,
             effects :=
               [AddMessage (newMessage asked_at (userMessage scenario_question)),
                SetIsProcessing True,
                AxiosPost (ascii ''http://localhost:8000/api/query'')
                  (QueryBody \<lparr>question = scenario_question, repo_url = scenario_url,
                     top_k = Some 3\<rparr>),
                ConsoleError (ascii ''Error sending message:'') NetworkError,
                AddMessage (newMessage asked_at errorMessage),
                SetIsProcessing False]\<rparr>) \<and>
   newMessage asked_at (userMessage scenario_question) \<noteq> newMessage asked_at errorMessage \<and>
   msg_id (newMessage asked_at (userMessage scenario_question)) = ascii ''1700000000000'' \<and>
   msg_id (newMessage asked_at errorMessage) = ascii ''1700000000000''"
proof -
  have id: "Number_toString 1700000000000 = ascii ''1700000000000''"
    by (simp add: Number_toString_def digits.simps ascii_def)
  have "suspended initial = []" by (simp add: initial_def)
  then have "run [SubmitQuestion asked_at scenario_question scenario_url,
        Settle 0 (Rejected NetworkError) asked_at] initial =
     Some (handleSendMessage_settled asked_at (Rejected NetworkError)
       ((submitQuestion asked_at scenario_question scenario_url initial)\<lparr>suspended := []\<rparr>))"
    using run_question [OF accepted_scenario, of asked_at initial] by simp
  then show ?thesis
    by (simp add: handleSendMessage_settled_Rejected submitQuestion_accepted accepted_scenario
        initial_def newMessage_def userMessage_def errorMessage_def id asked_at_def)
qed

section \<open>The question as typed\<close>

text \<open>
  Claim C10: an accepted question goes into the transcript and into the query exactly as it
  was typed.  The check looks at the trimmed string; the user message and the \<open>question\<close> of
  the request carry the string itself, white space at both ends included.
\<close>

theorem question_sent_as_typed:
  "accepted_question q url \<Longrightarrow>
   messages (submitQuestion clk q url w) = messages w @ [newMessage clk (userMessage q)] \<and>
   content (newMessage clk (userMessage q)) = JStr q \<and>
   effects (submitQuestion clk q url w) =
     effects w @
       [AddMessage (newMessage clk (userMessage q)), SetIsProcessing True,
        AxiosPost (ascii ''http://localhost:8000/api/query'')
          (QueryBody \<lparr>question = q, repo_url = url, top_k = Some 3\<rparr>)]"
  by (simp add: submitQuestion_accepted newMessage_def userMessage_def)

theorem question_sent_as_typed_witness:
  "accepted_question padded_question scenario_url \<and>
   trim padded_question \<noteq> padded_question \<and>
   map content (messages (submitQuestion asked_at padded_question scenario_url initial)) =
     [JStr padded_question]"
proof -
  have "trim padded_question \<noteq> padded_question"
    unfolding trim_padded by (simp add: padded_question_def ascii_def)
  then show ?thesis
    using question_sent_as_typed [OF accepted_padded, of asked_at initial] accepted_padded
    by (simp add: initial_def)
qed

end
